theory Spec2Isabelle
  imports Complex_Main
begin

section \<open>Data model (types.ts)\<close>

text \<open>
  A TypeScript \<^verbatim>\<open>number\<close> is modelled by a real: the arithmetic of the client
  (\<^verbatim>\<open>/\<close>, \<^verbatim>\<open>*\<close>, \<^verbatim>\<open>+\<close>, \<^verbatim>\<open>-\<close>) is the exact one, the rounding of binary64 is
  not part of the model. An optional field \<^verbatim>\<open>f?: T\<close> is a \<open>T option\<close>, with
  \<open>None\<close> for \<^verbatim>\<open>undefined\<close>.
\<close>

text \<open>The fields \<^verbatim>\<open>costs.input\<close> and \<^verbatim>\<open>costs.output\<close>.\<close>

record Costs =
  costs_input :: real
  costs_output :: real

text \<open>\<^verbatim>\<open>ModelEntry\<close>; the field \<^verbatim>\<open>id\<close> is named \<open>modelId\<close> here.\<close>

record ModelEntry =
  provider :: string
  modelId :: string
  costs :: "Costs option"

text \<open>
  What a call can throw. \<open>TypeError\<close> is the runtime's error on reading a property of
  \<^verbatim>\<open>undefined\<close> or calling a value that is not a function; \<open>Thrown x\<close> is a value
  \<open>x\<close> thrown (or a promise rejected with \<open>x\<close>) by a collaborator, which the client
  lets through unchanged. \<open>ConfigError\<close>, \<open>UnknownModelError\<close> and
  \<open>ProviderInitError\<close> are the error classes named by the specification; no statement
  of the source constructs any of them.
\<close>

datatype 'x error =
    TypeError
  | Thrown 'x
  | ConfigError
  | UnknownModelError
  | ProviderInitError

text \<open>
  \<^verbatim>\<open>LanguageModelProvider = (modelId: string) => LanguageModel\<close>: a function value
  (always truthy), whose call may throw; its argument is \<open>None\<close> when the client calls
  it with \<^verbatim>\<open>undefined\<close>. \<^verbatim>\<open>ProviderFactory\<close>: a call with an effect on the world
  \<open>'w\<close> outside the client, awaited, that returns a provider or throws.
\<close>

type_synonym ('x, 'm) LanguageModelProvider = "string option \<Rightarrow> 'x + 'm"

type_synonym ('w, 'x, 'm) ProviderFactory =
  "'w \<Rightarrow> ('x + ('x, 'm) LanguageModelProvider) \<times> 'w"

text \<open>
  The two records of the configuration are plain objects. A property read
  \<^verbatim>\<open>config.providers[k]\<close> or \<^verbatim>\<open>config.models[k]\<close> finds an own key first and then
  the names the object inherits from its prototype (\<^verbatim>\<open>constructor\<close>, \<^verbatim>\<open>toString\<close>,
  ...); it is \<^verbatim>\<open>undefined\<close> for every other name. Of an inherited value the client can
  observe two things. Read as a model entry, its \<^verbatim>\<open>provider\<close>, \<^verbatim>\<open>id\<close> and \<^verbatim>\<open>costs\<close>
  are \<^verbatim>\<open>undefined\<close>. Called as a factory, with no receiver and no argument, it either
  throws a \<open>TypeError\<close> (it is not a function, or the built-in refuses the
  \<^verbatim>\<open>undefined\<close> receiver) or returns a value that is not a function, of which only the
  truthiness matters.
\<close>

datatype inherited_call = ThrowsTypeError | ReturnsValue bool

record ('w, 'x, 'm) Config =
  providers :: "string \<rightharpoonup> ('w, 'x, 'm) ProviderFactory"
  models :: "string \<rightharpoonup> ModelEntry"
  inherited :: "string \<rightharpoonup> inherited_call"

text \<open>\<^verbatim>\<open>GenerateParams\<close>; the field \<^verbatim>\<open>output\<close> is named \<open>params_output\<close> here.\<close>

record 's GenerateParams =
  model :: string
  prompt :: string
  system :: "string option"
  params_output :: "'s option"
  logKey :: "string option"
  temperature :: "real option"
  maxOutputTokens :: "real option"

record CostFields =
  inputCostUsd :: "real option"
  outputCostUsd :: "real option"
  totalCostUsd :: "real option"

record GenerateMetadata = CostFields +
  responseTimeMs :: real
  inputTokens :: real
  outputTokens :: real

text \<open>
  \<^verbatim>\<open>data\<close> is the SDK's text or its structured output, cast to one type in the source.
\<close>

datatype 'o GenerateData = TextData string | OutputData 'o

record 'o GenerateResponse =
  data :: "'o GenerateData"
  metadata :: GenerateMetadata

section \<open>The collaborators\<close>

text \<open>
  The argument object and the result of the SDK's \<^verbatim>\<open>generateText\<close>, with the fields the
  client writes and reads.
\<close>

datatype ('m, 's) GenerateTextArgs =
  GenerateTextArgs (arg_model: 'm) (arg_prompt: string) (arg_system: "string option")
    (arg_temperature: "real option") (arg_maxOutputTokens: "real option")
    (arg_experimental_output: "'s option")

record Usage =
  usageInputTokens :: "real option"
  usageOutputTokens :: "real option"

record 'o GenerateTextResult =
  result_text :: string
  experimental_output :: 'o
  usage :: "Usage option"

text \<open>
  Everything the client calls and does not define: the SDK's \<^verbatim>\<open>generateText\<close>,
  \<^verbatim>\<open>Date.now\<close>, \<^verbatim>\<open>console.log\<close> (\<open>Some x\<close>: it threw \<open>x\<close>), \<^verbatim>\<open>toFixed(2)\<close> and the
  \<^verbatim>\<open>format\<close> of \<^verbatim>\<open>costFormatter\<close> (\<open>None\<close>: called on \<^verbatim>\<open>undefined\<close>). The effectful
  ones take the world and return the new one.
\<close>

record ('w, 'x, 'm, 's, 'o) Env =
  generateText :: "('m, 's) GenerateTextArgs \<Rightarrow> 'w \<Rightarrow> ('x + 'o GenerateTextResult) \<times> 'w"
  date_now :: "'w \<Rightarrow> real \<times> 'w"
  console_log :: "string \<Rightarrow> 'w \<Rightarrow> 'x option \<times> 'w"
  toFixed2 :: "real \<Rightarrow> string"
  costFormatter_format :: "real option \<Rightarrow> string"

section \<open>createAI (the client)\<close>

text \<open>
  What the provider cache can hold and \<open>getProvider\<close> can return: a provider, or the
  value, not a function, that an inherited property returned when it was called as a
  factory (with its truthiness).
\<close>

datatype ('x, 'm) jsvalue =
    Provider "('x, 'm) LanguageModelProvider"
  | NotCallable bool

fun truthy :: "('x, 'm) jsvalue \<Rightarrow> bool" where
  "truthy (Provider p) = True"
| "truthy (NotCallable t) = t"

text \<open>
  A provider key as the client passes it around: a string, or \<open>None\<close> for
  \<^verbatim>\<open>undefined\<close> (the \<^verbatim>\<open>provider\<close> of an inherited value). The cache, a \<^verbatim>\<open>Map\<close>, keeps the
  two apart; a property read turns the key into a property name first.
\<close>

fun propertyKey :: "string option \<Rightarrow> string" where
  "propertyKey None = ''undefined''"
| "propertyKey (Some k) = k"

text \<open>
  What happened during the calls, in order: a factory of the provider mapping was invoked
  (with the key under resolution and whether the factory returned), a line was passed to
  \<^verbatim>\<open>console.log\<close>. The list is a ghost field of the client's state: the program never
  reads it.
\<close>

datatype event = FactoryCall "string option" bool | LogLine string

record ('x, 'm) Client =
  providerCache :: "string option \<rightharpoonup> ('x, 'm) jsvalue"
  events :: "event list"


subsection \<open>getProvider\<close>

text \<open>
  \<^verbatim>\<open>const cached = providerCache.get(providerKey); if (cached) return cached;\<close>
  (lines 189 and 190): the cached value when there is one and it is truthy.
\<close>

definition cacheHit :: "('x, 'm) Client \<Rightarrow> string option \<Rightarrow> ('x, 'm) jsvalue option" where
  "cacheHit c providerKey =
    (case providerCache c providerKey of
      None \<Rightarrow> None
    | Some cached \<Rightarrow> if truthy cached then Some cached else None)"

text \<open>
  \<open>getProvider\<close> suspends at its \<^verbatim>\<open>await\<close> (line 193). \<open>Settled r\<close>: the call ended
  without reaching it. \<open>Pending r\<close>: the factory was invoked and the call is suspended
  on its promise, which will settle as \<open>r\<close>.
\<close>

datatype ('x, 'm) resolution =
    Settled "'x error + ('x, 'm) jsvalue"
  | Pending "'x + ('x, 'm) jsvalue"

text \<open>
  Lines 189 to 193, up to the \<^verbatim>\<open>await\<close>: the cache is read, the factory is looked up
  in \<^verbatim>\<open>config.providers\<close> and invoked. The effect of the factory on the world takes
  place at the invocation.
\<close>

definition getProvider_call ::
  "('w, 'x, 'm) Config \<Rightarrow> string option \<Rightarrow> ('x, 'm) Client \<Rightarrow> 'w \<Rightarrow>
    ('x, 'm) resolution \<times> ('x, 'm) Client \<times> 'w" where
  "getProvider_call config providerKey c w =
    (case cacheHit c providerKey of
      Some cached \<Rightarrow> (Settled (Inr cached), c, w)
    | None \<Rightarrow>
        (case providers config (propertyKey providerKey) of
          Some factory \<Rightarrow>
            (case factory w of
              (Inl x, w') \<Rightarrow>
                (Pending (Inl x),
                 c\<lparr>events := events c @ [FactoryCall providerKey False]\<rparr>, w')
            | (Inr p, w') \<Rightarrow>
                (Pending (Inr (Provider p)),
                 c\<lparr>events := events c @ [FactoryCall providerKey True]\<rparr>, w'))
        | None \<Rightarrow>
            (case inherited config (propertyKey providerKey) of
              None \<Rightarrow> (Settled (Inl TypeError), c, w)
            | Some ThrowsTypeError \<Rightarrow> (Settled (Inl TypeError), c, w)
            | Some (ReturnsValue t) \<Rightarrow> (Pending (Inr (NotCallable t)), c, w))))"

text \<open>
  Lines 193 to 195, after the \<^verbatim>\<open>await\<close>: a rejection is let through; a value is
  stored in the cache under the key and returned.
\<close>

definition getProvider_resume ::
  "string option \<Rightarrow> 'x + ('x, 'm) jsvalue \<Rightarrow> ('x, 'm) Client \<Rightarrow>
    ('x error + ('x, 'm) jsvalue) \<times> ('x, 'm) Client" where
  "getProvider_resume providerKey outcome c =
    (case outcome of
      Inl x \<Rightarrow> (Inl (Thrown x), c)
    | Inr v \<Rightarrow> (Inr v, c\<lparr>providerCache := (providerCache c)(providerKey \<mapsto> v)\<rparr>))"

text \<open>A resolution during which no other call of the client runs.\<close>

definition getProvider ::
  "('w, 'x, 'm) Config \<Rightarrow> string option \<Rightarrow> ('x, 'm) Client \<Rightarrow> 'w \<Rightarrow>
    ('x error + ('x, 'm) jsvalue) \<times> ('x, 'm) Client \<times> 'w" where
  "getProvider config providerKey c w =
    (case getProvider_call config providerKey c w of
      (Settled r, c', w') \<Rightarrow> (r, c', w')
    | (Pending outcome, c', w') \<Rightarrow>
        (case getProvider_resume providerKey outcome c' of
          (r, c'') \<Rightarrow> (r, c'', w')))"

subsection \<open>getModel and calculateCosts\<close>

text \<open>
  \<^verbatim>\<open>const modelConfig = config.models[modelKey]!\<close> (lines 202 and 216) and what the
  client then reads of it. \<open>None\<close>: the read gave \<^verbatim>\<open>undefined\<close>, and reading a
  property of it throws.
\<close>

record EntryRead =
  read_provider :: "string option"
  read_id :: "string option"
  read_costs :: "Costs option"

definition lookupModel :: "('w, 'x, 'm) Config \<Rightarrow> string \<Rightarrow> EntryRead option" where
  "lookupModel config modelKey =
    (case models config modelKey of
      Some modelConfig \<Rightarrow>
        Some \<lparr>read_provider = Some (provider modelConfig),
              read_id = Some (modelId modelConfig),
              read_costs = costs modelConfig\<rparr>
    | None \<Rightarrow>
        (case inherited config modelKey of
          Some i \<Rightarrow> Some \<lparr>read_provider = None, read_id = None, read_costs = None\<rparr>
        | None \<Rightarrow> None))"

text \<open>\<^verbatim>\<open>provider(modelConfig.id)\<close> (line 204).\<close>

fun callProvider :: "('x, 'm) jsvalue \<Rightarrow> string option \<Rightarrow> 'x error + 'm" where
  "callProvider (Provider p) i = (case p i of Inl x \<Rightarrow> Inl (Thrown x) | Inr m \<Rightarrow> Inr m)"
| "callProvider (NotCallable t) i = Inl TypeError"

definition getModel ::
  "('w, 'x, 'm) Config \<Rightarrow> string \<Rightarrow> ('x, 'm) Client \<Rightarrow> 'w \<Rightarrow>
    ('x error + 'm) \<times> ('x, 'm) Client \<times> 'w" where
  "getModel config modelKey c w =
    (case lookupModel config modelKey of
      None \<Rightarrow> (Inl TypeError, c, w)
    | Some modelConfig \<Rightarrow>
        (case getProvider config (read_provider modelConfig) c w of
          (Inl e, c', w') \<Rightarrow> (Inl e, c', w')
        | (Inr v, c', w') \<Rightarrow> (callProvider v (read_id modelConfig), c', w')))"

definition calculateCosts ::
  "('w, 'x, 'm) Config \<Rightarrow> string \<Rightarrow> real \<Rightarrow> real \<Rightarrow> 'x error + CostFields" where
  "calculateCosts config modelKey inTok outTok =
    (case lookupModel config modelKey of
      None \<Rightarrow> Inl TypeError
    | Some modelConfig \<Rightarrow>
        (case read_costs modelConfig of
          None \<Rightarrow>
            Inr \<lparr>inputCostUsd = None, outputCostUsd = None, totalCostUsd = None\<rparr>
        | Some cs \<Rightarrow>
            (let inCost = (inTok / 1000000) * costs_input cs;
                 outCost = (outTok / 1000000) * costs_output cs;
                 totalCost = inCost + outCost
             in Inr \<lparr>inputCostUsd = Some inCost, outputCostUsd = Some outCost,
                     totalCostUsd = Some totalCost\<rparr>)))"

subsection \<open>generate\<close>

text \<open>The template literal of the log line (lines 259 to 264 of the client).\<close>

definition logLine ::
  "('w, 'x, 'm, 's, 'o) Env \<Rightarrow> string \<Rightarrow> string \<Rightarrow> real \<Rightarrow> CostFields \<Rightarrow> string" where
  "logLine env key modelKey ms cf =
    (let costStr =
       (case totalCostUsd cf of
         Some totalCost \<Rightarrow>
           '' cost: '' @ costFormatter_format env (Some totalCost) @
           '' (in: '' @ costFormatter_format env (inputCostUsd cf) @
           '', out: '' @ costFormatter_format env (outputCostUsd cf) @ '')''
       | None \<Rightarrow> [])
     in ''[LLM]['' @ key @ ''] '' @ toFixed2 env (ms / 1000) @ ''s using '' @ modelKey @
        costStr)"

text \<open>
  \<^verbatim>\<open>if (params.logKey) { ... console.log(...) }\<close>: a string is truthy when it is not
  empty, \<^verbatim>\<open>undefined\<close> is falsy. The result is what \<^verbatim>\<open>console.log\<close> threw, if it did.
\<close>

definition emitLog ::
  "('w, 'x, 'm, 's, 'o) Env \<Rightarrow> 's GenerateParams \<Rightarrow> real \<Rightarrow> CostFields \<Rightarrow>
    ('x, 'm) Client \<Rightarrow> 'w \<Rightarrow> 'x option \<times> ('x, 'm) Client \<times> 'w" where
  "emitLog env params ms cf c w =
    (case logKey params of
      None \<Rightarrow> (None, c, w)
    | Some key \<Rightarrow>
        if key = [] then (None, c, w)
        else
          (let line = logLine env key (model params) ms cf in
           case console_log env line w of
             (r, w') \<Rightarrow> (r, c\<lparr>events := events c @ [LogLine line]\<rparr>, w')))"

text \<open>
  \<^verbatim>\<open>result.usage?.inputTokens ?? 0\<close> and \<^verbatim>\<open>result.usage?.outputTokens ?? 0\<close>
  (lines 253 and 254).
\<close>

definition usedInputTokens :: "'o GenerateTextResult \<Rightarrow> real" where
  "usedInputTokens result =
    (case usage result of
      None \<Rightarrow> 0
    | Some u \<Rightarrow> (case usageInputTokens u of None \<Rightarrow> 0 | Some n \<Rightarrow> n))"

definition usedOutputTokens :: "'o GenerateTextResult \<Rightarrow> real" where
  "usedOutputTokens result =
    (case usage result of
      None \<Rightarrow> 0
    | Some u \<Rightarrow> (case usageOutputTokens u of None \<Rightarrow> 0 | Some n \<Rightarrow> n))"

text \<open>The object passed to \<^verbatim>\<open>generateText\<close> (lines 242 to 249).\<close>

definition sdkArgs :: "'m \<Rightarrow> 's GenerateParams \<Rightarrow> ('m, 's) GenerateTextArgs" where
  "sdkArgs mdl params =
    GenerateTextArgs mdl (prompt params) (system params) (temperature params)
      (maxOutputTokens params) (params_output params)"

text \<open>The returned object (lines 267 to 275); \<^verbatim>\<open>...costs\<close> copies the three cost fields.\<close>

definition response ::
  "'s GenerateParams \<Rightarrow> 'o GenerateTextResult \<Rightarrow> real \<Rightarrow> CostFields \<Rightarrow> 'o GenerateResponse" where
  "response params result ms cf =
    \<lparr>data = (case params_output params of
               Some s \<Rightarrow> OutputData (experimental_output result)
             | None \<Rightarrow> TextData (result_text result)),
     metadata =
       \<lparr>inputCostUsd = inputCostUsd cf,
        outputCostUsd = outputCostUsd cf,
        totalCostUsd = totalCostUsd cf,
        responseTimeMs = ms,
        inputTokens = usedInputTokens result,
        outputTokens = usedOutputTokens result\<rparr>\<rparr>"

text \<open>
  Lines 250 to 275, after the \<^verbatim>\<open>await\<close> of the SDK call, whose promise settled as
  \<open>outcome\<close>.
\<close>

definition finish ::
  "('w, 'x, 'm) Config \<Rightarrow> ('w, 'x, 'm, 's, 'o) Env \<Rightarrow> 's GenerateParams \<Rightarrow> real \<Rightarrow>
    'x + 'o GenerateTextResult \<Rightarrow> ('x, 'm) Client \<Rightarrow> 'w \<Rightarrow>
    ('x error + 'o GenerateResponse) \<times> ('x, 'm) Client \<times> 'w" where
  "finish config env params startTime outcome c w =
    (case outcome of
      Inl x \<Rightarrow> (Inl (Thrown x), c, w)
    | Inr result \<Rightarrow>
        (case date_now env w of
          (endTime, w4) \<Rightarrow>
            (case calculateCosts config (model params)
                    (usedInputTokens result) (usedOutputTokens result) of
              Inl e \<Rightarrow> (Inl e, c, w4)
            | Inr cf \<Rightarrow>
                (case emitLog env params (endTime - startTime) cf c w4 of
                  (Some x, c2, w5) \<Rightarrow> (Inl (Thrown x), c2, w5)
                | (None, c2, w5) \<Rightarrow>
                    (Inr (response params result (endTime - startTime) cf), c2, w5)))))"

text \<open>A \<open>generate\<close> call during which no other call of the client runs.\<close>

definition generate ::
  "('w, 'x, 'm) Config \<Rightarrow> ('w, 'x, 'm, 's, 'o) Env \<Rightarrow> 's GenerateParams \<Rightarrow>
    ('x, 'm) Client \<Rightarrow> 'w \<Rightarrow> ('x error + 'o GenerateResponse) \<times> ('x, 'm) Client \<times> 'w" where
  "generate config env params c w =
    (case getModel config (model params) c w of
      (Inl e, c1, w1) \<Rightarrow> (Inl e, c1, w1)
    | (Inr mdl, c1, w1) \<Rightarrow>
        (case date_now env w1 of
          (startTime, w2) \<Rightarrow>
            (case generateText env (sdkArgs mdl params) w2 of
              (outcome, w3) \<Rightarrow> finish config env params startTime outcome c1 w3)))"


subsection \<open>Calls that overlap\<close>

text \<open>
  \<open>generate\<close>, \<open>getModel\<close> and \<open>getProvider\<close> are \<^verbatim>\<open>async\<close>: a call runs until an
  \<^verbatim>\<open>await\<close>, and other calls of the client run before it goes on. A call in progress
  is at one of these points:
  \<^item> \<open>Start\<close>: not begun;
  \<^item> \<open>AwaitFactory\<close>: in \<open>getProvider\<close>, suspended on the promise of the factory
    (line 193), with the key, the \<^verbatim>\<open>id\<close> read of the model entry and the way the promise
    will settle;
  \<^item> \<open>AwaitProvider\<close>: in \<open>getModel\<close>, suspended on \<open>getProvider\<close> (line 203), which
    has returned the value;
  \<^item> \<open>AwaitModel\<close>: in \<open>generate\<close>, suspended on \<open>getModel\<close> (line 239), which has
    returned the model;
  \<^item> \<open>AwaitSdk\<close>: in \<open>generate\<close>, suspended on the SDK call (line 242), with the start
    time and the way the promise will settle;
  \<^item> \<open>Done\<close>: settled.
  A rejection runs no statement of the client on its way up, so the call is settled at
  once.
\<close>

datatype ('x, 'm, 's, 'o) call_state =
    Start "'s GenerateParams"
  | AwaitFactory "'s GenerateParams" "string option" "string option" "'x + ('x, 'm) jsvalue"
  | AwaitProvider "'s GenerateParams" "string option" "('x, 'm) jsvalue"
  | AwaitModel "'s GenerateParams" 'm
  | AwaitSdk "'s GenerateParams" real "'x + 'o GenerateTextResult"
  | Done "'x error + 'o GenerateResponse"

text \<open>One call runs from the point where it is to its next \<^verbatim>\<open>await\<close>.\<close>

fun step ::
  "('w, 'x, 'm) Config \<Rightarrow> ('w, 'x, 'm, 's, 'o) Env \<Rightarrow> ('x, 'm, 's, 'o) call_state \<Rightarrow>
    ('x, 'm) Client \<Rightarrow> 'w \<Rightarrow> ('x, 'm, 's, 'o) call_state \<times> ('x, 'm) Client \<times> 'w" where
  "step config env (Start params) c w =
    (case lookupModel config (model params) of
      None \<Rightarrow> (Done (Inl TypeError), c, w)
    | Some modelConfig \<Rightarrow>
        (case getProvider_call config (read_provider modelConfig) c w of
          (Settled (Inl e), c', w') \<Rightarrow> (Done (Inl e), c', w')
        | (Settled (Inr v), c', w') \<Rightarrow>
            (AwaitProvider params (read_id modelConfig) v, c', w')
        | (Pending outcome, c', w') \<Rightarrow>
            (AwaitFactory params (read_provider modelConfig) (read_id modelConfig) outcome,
             c', w')))"
| "step config env (AwaitFactory params providerKey i outcome) c w =
    (case getProvider_resume providerKey outcome c of
      (Inl e, c') \<Rightarrow> (Done (Inl e), c', w)
    | (Inr v, c') \<Rightarrow> (AwaitProvider params i v, c', w))"
| "step config env (AwaitProvider params i v) c w =
    (case callProvider v i of
      Inl e \<Rightarrow> (Done (Inl e), c, w)
    | Inr mdl \<Rightarrow> (AwaitModel params mdl, c, w))"
| "step config env (AwaitModel params mdl) c w =
    (case date_now env w of
      (startTime, w2) \<Rightarrow>
        (case generateText env (sdkArgs mdl params) w2 of
          (outcome, w3) \<Rightarrow> (AwaitSdk params startTime outcome, c, w3)))"
| "step config env (AwaitSdk params startTime outcome) c w =
    (case finish config env params startTime outcome c w of
      (r, c', w') \<Rightarrow> (Done r, c', w'))"
| "step config env (Done r) c w = (Done r, c, w)"

text \<open>
  Calls in progress on one client, and the order in which they run: each number of the
  schedule lets that call run to its next \<^verbatim>\<open>await\<close>.
\<close>

fun overlapped ::
  "('w, 'x, 'm) Config \<Rightarrow> ('w, 'x, 'm, 's, 'o) Env \<Rightarrow> nat list \<Rightarrow>
    ('x, 'm, 's, 'o) call_state list \<Rightarrow> ('x, 'm) Client \<Rightarrow> 'w \<Rightarrow>
    ('x, 'm, 's, 'o) call_state list \<times> ('x, 'm) Client \<times> 'w" where
  "overlapped config env [] ts c w = (ts, c, w)"
| "overlapped config env (i # sched) ts c w =
    (if i < length ts then
       (case step config env (ts ! i) c w of
         (t, c', w') \<Rightarrow> overlapped config env sched (ts[i := t]) c' w')
     else overlapped config env sched ts c w)"

text \<open>
  The outcomes of the factory invocations made to resolve one key, in order, and those
  of the invocations of the factory found under one name of the provider mapping.
\<close>

fun factory_calls :: "string option \<Rightarrow> event list \<Rightarrow> bool list" where
  "factory_calls k [] = []"
| "factory_calls k (FactoryCall k' ok # es) =
    (if k' = k then ok # factory_calls k es else factory_calls k es)"
| "factory_calls k (LogLine l # es) = factory_calls k es"

fun invocations_of :: "string \<Rightarrow> event list \<Rightarrow> bool list" where
  "invocations_of n [] = []"
| "invocations_of n (FactoryCall k ok # es) =
    (if propertyKey k = n then ok # invocations_of n es else invocations_of n es)"
| "invocations_of n (LogLine l # es) = invocations_of n es"

fun log_lines :: "event list \<Rightarrow> string list" where
  "log_lines [] = []"
| "log_lines (FactoryCall k ok # es) = log_lines es"
| "log_lines (LogLine l # es) = l # log_lines es"

section \<open>Example configurations\<close>

text \<open>
  What the records of a configuration written as object literals inherit from
  \<^verbatim>\<open>Object.prototype\<close>, and what a call of the inherited value with no receiver and no
  argument does: \<^verbatim>\<open>Object()\<close> returns a new object and \<^verbatim>\<open>toString\<close> the string
  \<^verbatim>\<open>[object Undefined]\<close>, both truthy; \<^verbatim>\<open>isPrototypeOf\<close> returns \<^verbatim>\<open>false\<close>; the
  others throw a \<open>TypeError\<close> on the \<^verbatim>\<open>undefined\<close> receiver, and the value of
  \<^verbatim>\<open>__proto__\<close> is not a function.
\<close>

definition objectPrototype :: "string \<rightharpoonup> inherited_call" where
  "objectPrototype =
    [''constructor'' \<mapsto> ReturnsValue True,
     ''toString'' \<mapsto> ReturnsValue True,
     ''isPrototypeOf'' \<mapsto> ReturnsValue False,
     ''toLocaleString'' \<mapsto> ThrowsTypeError,
     ''valueOf'' \<mapsto> ThrowsTypeError,
     ''hasOwnProperty'' \<mapsto> ThrowsTypeError,
     ''propertyIsEnumerable'' \<mapsto> ThrowsTypeError,
     ''__defineGetter__'' \<mapsto> ThrowsTypeError,
     ''__defineSetter__'' \<mapsto> ThrowsTypeError,
     ''__lookupGetter__'' \<mapsto> ThrowsTypeError,
     ''__lookupSetter__'' \<mapsto> ThrowsTypeError,
     ''__proto__'' \<mapsto> ThrowsTypeError]"

text \<open>
  The configuration of the README: one provider, a model without costs and a model with
  costs. The world is a count of elapsed milliseconds, a thrown value is a message, a
  model handle is a string. The factory takes 40 ms.
\<close>

definition openai_provider :: "(string, string) LanguageModelProvider" where
  "openai_provider i = Inr (''openai:'' @ propertyKey i)"

definition example_config :: "(nat, string, string) Config" where
  "example_config =
    \<lparr>providers = [''openai'' \<mapsto> (\<lambda>w. (Inr openai_provider, w + 40))],
     models =
       [''fast'' \<mapsto> \<lparr>provider = ''openai'', modelId = ''gpt-4o-mini'', costs = None\<rparr>,
        ''smart'' \<mapsto> \<lparr>provider = ''openai'', modelId = ''gpt-4o'',
                      costs = Some \<lparr>costs_input = 2.5, costs_output = 10\<rparr>\<rparr>],
     inherited = objectPrototype\<rparr>"

text \<open>The same, with a factory that throws on its first invocation (at time 0) only.\<close>

definition flaky_config :: "(nat, string, string) Config" where
  "flaky_config =
    example_config
      \<lparr>providers :=
        [''openai'' \<mapsto>
          (\<lambda>w. if w = 0 then (Inl ''boom'', w + 40) else (Inr openai_provider, w + 40))]\<rparr>"

text \<open>
  The same, with two more models, whose provider keys are not keys of \<open>providers\<close>: one
  names nothing, the other an inherited property.
\<close>

definition dangling_config :: "(nat, string, string) Config" where
  "dangling_config =
    example_config
      \<lparr>models := (models example_config)
        (''ghost'' \<mapsto> \<lparr>provider = ''missing'', modelId = ''m'', costs = None\<rparr>,
         ''odd'' \<mapsto> \<lparr>provider = ''constructor'', modelId = ''m'', costs = None\<rparr>)\<rparr>"

text \<open>The same as the README's, with the provider keyed \<^verbatim>\<open>undefined\<close>.\<close>

definition undefined_key_config :: "(nat, string, string) Config" where
  "undefined_key_config =
    example_config
      \<lparr>providers := [''undefined'' \<mapsto> (\<lambda>w. (Inr openai_provider, w + 40))]\<rparr>"

text \<open>
  An SDK that answers after 250 ms, a clock that reads the world, a console that takes
  every line. The two formatters are stand-ins.
\<close>

definition example_result :: "string GenerateTextResult" where
  "example_result =
    \<lparr>result_text = ''Hello'', experimental_output = ''{}'',
     usage = Some \<lparr>usageInputTokens = Some 1000000, usageOutputTokens = Some 500000\<rparr>\<rparr>"

definition example_env :: "(nat, string, string, unit, string) Env" where
  "example_env =
    \<lparr>generateText = (\<lambda>args w. (Inr example_result, w + 250)),
     date_now = (\<lambda>w. (real w, w)),
     console_log = (\<lambda>line w. (None, w)),
     toFixed2 = (\<lambda>r. ''0.25''),
     costFormatter_format = (\<lambda>r. ''$'')\<rparr>"

text \<open>A console whose \<^verbatim>\<open>log\<close> throws.\<close>

definition broken_console_env :: "(nat, string, string, unit, string) Env" where
  "broken_console_env = example_env\<lparr>console_log := (\<lambda>line w. (Some ''EPIPE'', w))\<rparr>"

text \<open>A wall clock that is set back by one second while the SDK call is pending.\<close>

definition clock_set_back_env :: "(nat, string, string, unit, string) Env" where
  "clock_set_back_env =
    example_env\<lparr>date_now := (\<lambda>w. (if w < 250 then real w else real w - 1000, w))\<rparr>"

definition example_params :: "string \<Rightarrow> unit GenerateParams" where
  "example_params alias =
    \<lparr>model = alias, prompt = ''Hello'', system = None, params_output = None,
     logKey = None, temperature = None, maxOutputTokens = None\<rparr>"

definition new_client :: "(string, string) Client" where
  "new_client = \<lparr>providerCache = Map.empty, events = []\<rparr>"

text \<open>What the example SDK's answer becomes for the model without costs.\<close>

definition fast_response :: "string GenerateResponse" where
  "fast_response =
    \<lparr>data = TextData ''Hello'',
     metadata = \<lparr>inputCostUsd = None, outputCostUsd = None, totalCostUsd = None,
       responseTimeMs = 250, inputTokens = 1000000, outputTokens = 500000\<rparr>\<rparr>"

text \<open>Two calls for the same model, begun one after the other before either is awaited.\<close>

definition two_calls :: "(string, string, unit, string) call_state list" where
  "two_calls = [Start (example_params ''fast''), Start (example_params ''fast'')]"

section \<open>Evaluation and inversion lemmas\<close>

lemmas example_defs = objectPrototype_def openai_provider_def example_config_def
  flaky_config_def dangling_config_def undefined_key_config_def
  example_result_def example_env_def broken_console_env_def clock_set_back_env_def
  example_params_def new_client_def fast_response_def two_calls_def

lemmas client_defs = generate_def finish_def getModel_def lookupModel_def getProvider_def
  getProvider_call_def getProvider_resume_def cacheHit_def calculateCosts_def
  emitLog_def logLine_def response_def usedInputTokens_def usedOutputTokens_def sdkArgs_def

lemma getModel_Inr_lookup:
  "getModel config k c w = (Inr m, c1, w1) \<Longrightarrow> \<exists>mc. lookupModel config k = Some mc"
  by (auto simp: getModel_def split: option.splits)

lemma generate_Inr_elim:
  assumes "generate config env params c w = (Inr resp, c', w')"
  shows "\<exists>mdl c1 w1 t0 w2 result w3 t1 w4 cf.
           getModel config (model params) c w = (Inr mdl, c1, w1) \<and>
           date_now env w1 = (t0, w2) \<and>
           generateText env (sdkArgs mdl params) w2 = (Inr result, w3) \<and>
           date_now env w3 = (t1, w4) \<and>
           calculateCosts config (model params) (usedInputTokens result)
             (usedOutputTokens result) = Inr cf \<and>
           emitLog env params (t1 - t0) cf c1 w4 = (None, c', w') \<and>
           resp = response params result (t1 - t0) cf"
  using assms unfolding generate_def finish_def
  by (auto split: prod.splits sum.splits option.splits)

section \<open>Cost computation\<close>

text \<open>
  C2. When the entry of the alias has costs, \<open>calculateCosts\<close> (the specification's
  computeCosts) returns, for all token counts, the input cost
  \<open>inputTokens / 1000000 * costs.input\<close>, the output cost
  \<open>outputTokens / 1000000 * costs.output\<close> and their sum as the total; with costs
  2.5 and 10 and the token counts 1000000 and 500000 the three values are 2.5, 5 and 7.5.
\<close>

theorem calculateCosts_formula:
  assumes "models config modelKey = Some modelConfig" and "costs modelConfig = Some cs"
  shows "calculateCosts config modelKey inTok outTok =
      Inr \<lparr>inputCostUsd = Some (inTok / 1000000 * costs_input cs),
           outputCostUsd = Some (outTok / 1000000 * costs_output cs),
           totalCostUsd = Some (inTok / 1000000 * costs_input cs +
                                outTok / 1000000 * costs_output cs)\<rparr> \<and>
    (costs_input cs = 2.5 \<and> costs_output cs = 10 \<longrightarrow>
      calculateCosts config modelKey 1000000 500000 =
        Inr \<lparr>inputCostUsd = Some 2.5, outputCostUsd = Some 5, totalCostUsd = Some 7.5\<rparr>)"
  using assms by (auto simp: calculateCosts_def lookupModel_def Let_def)

theorem calculateCosts_formula_witness:
  "models example_config ''smart'' =
      Some \<lparr>provider = ''openai'', modelId = ''gpt-4o'',
            costs = Some \<lparr>costs_input = 2.5, costs_output = 10\<rparr>\<rparr> \<and>
   calculateCosts example_config ''smart'' 2000000 3 =
      Inr \<lparr>inputCostUsd = Some 5, outputCostUsd = Some (3 / 100000),
           totalCostUsd = Some (5 + 3 / 100000)\<rparr> \<and>
   calculateCosts example_config ''smart'' 1000000 500000 =
      Inr \<lparr>inputCostUsd = Some 2.5, outputCostUsd = Some 5, totalCostUsd = Some 7.5\<rparr>"
proof -
  let ?entry = "\<lparr>provider = ''openai'', modelId = ''gpt-4o'',
            costs = Some \<lparr>costs_input = 2.5, costs_output = 10\<rparr>\<rparr>"
  have m: "models example_config ''smart'' = Some ?entry"
    by (simp add: example_config_def)
  have c: "costs ?entry = Some \<lparr>costs_input = 2.5, costs_output = 10\<rparr>"
    by simp
  from calculateCosts_formula [OF m c, of 2000000 3] m show ?thesis
    by simp
qed

lemma generate_fst_Inr_elim:
  assumes "fst (generate config env params c w) = Inr resp"
  shows "\<exists>mdl c1 w1 t0 w2 result w3 t1 w4 cf c' w'.
           getModel config (model params) c w = (Inr mdl, c1, w1) \<and>
           date_now env w1 = (t0, w2) \<and>
           generateText env (sdkArgs mdl params) w2 = (Inr result, w3) \<and>
           date_now env w3 = (t1, w4) \<and>
           calculateCosts config (model params) (usedInputTokens result)
             (usedOutputTokens result) = Inr cf \<and>
           emitLog env params (t1 - t0) cf c1 w4 = (None, c', w') \<and>
           resp = response params result (t1 - t0) cf"
proof -
  obtain c' w' where "generate config env params c w = (Inr resp, c', w')"
    using assms by (cases "generate config env params c w") auto
  from generate_Inr_elim [OF this] show ?thesis by blast
qed

lemma lookupModel_own:
  "models config k = Some entry \<Longrightarrow>
    lookupModel config k =
      Some \<lparr>read_provider = Some (provider entry), read_id = Some (modelId entry),
            read_costs = costs entry\<rparr>"
  by (simp add: lookupModel_def)

lemma lookupModel_not_own:
  "models config k = None \<Longrightarrow> lookupModel config k = Some mc \<Longrightarrow>
    mc = \<lparr>read_provider = None, read_id = None, read_costs = None\<rparr>"
  by (auto simp: lookupModel_def split: option.splits)

lemma calculateCosts_Inr_fields:
  assumes "calculateCosts config k i j = Inr cf"
  shows "\<exists>mc. lookupModel config k = Some mc \<and>
    (inputCostUsd cf \<noteq> None) = (read_costs mc \<noteq> None) \<and>
    (outputCostUsd cf \<noteq> None) = (read_costs mc \<noteq> None) \<and>
    (totalCostUsd cf \<noteq> None) = (read_costs mc \<noteq> None)"
proof (cases "lookupModel config k")
  case None
  with assms show ?thesis by (simp add: calculateCosts_def)
next
  case (Some mc)
  show ?thesis
  proof (cases "read_costs mc")
    case None
    with Some assms have "cf = \<lparr>inputCostUsd = None, outputCostUsd = None, totalCostUsd = None\<rparr>"
      by (simp add: calculateCosts_def)
    with Some None show ?thesis by simp
  next
    case (Some cs)
    with \<open>lookupModel config k = Some mc\<close> assms
    have "\<exists>a b t. cf = \<lparr>inputCostUsd = Some a, outputCostUsd = Some b, totalCostUsd = Some t\<rparr>"
      by (auto simp: calculateCosts_def Let_def)
    then obtain a b t where
      "cf = \<lparr>inputCostUsd = Some a, outputCostUsd = Some b, totalCostUsd = Some t\<rparr>"
      by blast
    with Some \<open>lookupModel config k = Some mc\<close> show ?thesis by simp
  qed
qed

lemma calculateCosts_no_costs:
  assumes "lookupModel config k = Some mc" and "read_costs mc = None"
  shows "calculateCosts config k i j =
    Inr \<lparr>inputCostUsd = None, outputCostUsd = None, totalCostUsd = None\<rparr>"
  using assms by (simp add: calculateCosts_def)

section \<open>The returned metadata and data\<close>

text \<open>
  C3. In the metadata of every \<open>generate\<close> call that returns, each of the three cost
  fields is present exactly when the model entry that the call read has costs; without
  costs \<open>calculateCosts\<close> returns the three fields absent for all token counts. The entry
  read is the entry of the model mapping when the alias is one of its keys; it has no
  costs when the alias is not.
\<close>

theorem cost_fields_iff_costs:
  assumes "fst (generate config env params c w) = Inr resp"
  shows "\<exists>mc. lookupModel config (model params) = Some mc \<and>
    (\<forall>entry. models config (model params) = Some entry \<longrightarrow> read_costs mc = costs entry) \<and>
    (models config (model params) = None \<longrightarrow> read_costs mc = None) \<and>
    (inputCostUsd (metadata resp) \<noteq> None) = (read_costs mc \<noteq> None) \<and>
    (outputCostUsd (metadata resp) \<noteq> None) = (read_costs mc \<noteq> None) \<and>
    (totalCostUsd (metadata resp) \<noteq> None) = (read_costs mc \<noteq> None) \<and>
    (read_costs mc = None \<longrightarrow>
      (\<forall>i j. calculateCosts config (model params) i j =
        Inr \<lparr>inputCostUsd = None, outputCostUsd = None, totalCostUsd = None\<rparr>))"
proof -
  from generate_fst_Inr_elim [OF assms] obtain result ms cf where
    cc: "calculateCosts config (model params) (usedInputTokens result)
           (usedOutputTokens result) = Inr cf"
    and resp: "resp = response params result ms cf"
    by blast
  from calculateCosts_Inr_fields [OF cc] obtain mc where
    e: "lookupModel config (model params) = Some mc"
    and f: "(inputCostUsd cf \<noteq> None) = (read_costs mc \<noteq> None)"
      "(outputCostUsd cf \<noteq> None) = (read_costs mc \<noteq> None)"
      "(totalCostUsd cf \<noteq> None) = (read_costs mc \<noteq> None)"
    by blast
  have m: "inputCostUsd (metadata resp) = inputCostUsd cf"
    "outputCostUsd (metadata resp) = outputCostUsd cf"
    "totalCostUsd (metadata resp) = totalCostUsd cf"
    by (simp_all add: resp response_def)
  have own: "\<forall>entry. models config (model params) = Some entry \<longrightarrow>
      read_costs mc = costs entry"
    using e by (auto simp: lookupModel_def)
  have not_own: "models config (model params) = None \<longrightarrow> read_costs mc = None"
    using e by (auto simp: lookupModel_def split: option.splits)
  show ?thesis
    using e f m own not_own calculateCosts_no_costs [OF e] by simp
qed

theorem cost_fields_iff_costs_witness:
  "fst (generate example_config example_env (example_params ''fast'') new_client 0) =
     Inr fast_response \<and>
   (\<exists>entry. models example_config ''fast'' = Some entry \<and> costs entry = None) \<and>
   inputCostUsd (metadata fast_response) = None \<and>
   fst (generate example_config example_env (example_params ''smart'') new_client 0) =
     Inr (fast_response\<lparr>metadata := (metadata fast_response)
        \<lparr>inputCostUsd := Some 2.5, outputCostUsd := Some 5, totalCostUsd := Some 7.5\<rparr>\<rparr>) \<and>
   (\<exists>entry. models example_config ''smart'' = Some entry \<and> costs entry \<noteq> None)"
proof -
  have f: "fst (generate example_config example_env (example_params ''fast'') new_client 0) =
     Inr fast_response"
    by (simp add: example_defs client_defs)
  have s: "fst (generate example_config example_env (example_params ''smart'') new_client 0) =
     Inr (fast_response\<lparr>metadata := (metadata fast_response)
        \<lparr>inputCostUsd := Some 2.5, outputCostUsd := Some 5, totalCostUsd := Some 7.5\<rparr>\<rparr>)"
    by (simp add: example_defs client_defs)
  have m: "model (example_params a) = a" for a
    by (simp add: example_params_def)
  have mf: "\<exists>entry. models example_config ''fast'' = Some entry"
    and ms: "\<exists>entry. models example_config ''smart'' = Some entry"
    by (simp_all add: example_config_def)
  from cost_fields_iff_costs [OF f] mf
  have "\<exists>entry. models example_config ''fast'' = Some entry \<and> costs entry = None"
    unfolding m by (auto simp: fast_response_def)
  moreover from cost_fields_iff_costs [OF s] ms
  have "\<exists>entry. models example_config ''smart'' = Some entry \<and> costs entry \<noteq> None"
    unfolding m by (auto simp: fast_response_def)
  moreover have "inputCostUsd (metadata fast_response) = None"
    by (simp add: fast_response_def)
  ultimately show ?thesis using f s by blast
qed

text \<open>
  C8. The \<open>data\<close> of every \<open>generate\<close> call that returns is taken from the result of the
  SDK call made for it: the plain text when \<open>params.output\<close> is omitted, and the SDK's
  structured output, for the schema passed to it, when \<open>params.output\<close> is supplied.
\<close>

theorem generate_data:
  assumes "fst (generate config env params c w) = Inr resp"
  shows "\<exists>mdl c1 w1 t0 w2 result w3.
    getModel config (model params) c w = (Inr mdl, c1, w1) \<and>
    date_now env w1 = (t0, w2) \<and>
    generateText env (sdkArgs mdl params) w2 = (Inr result, w3) \<and>
    arg_experimental_output (sdkArgs mdl params) = params_output params \<and>
    (params_output params = None \<longrightarrow> data resp = TextData (result_text result)) \<and>
    (params_output params \<noteq> None \<longrightarrow> data resp = OutputData (experimental_output result))"
proof -
  from generate_fst_Inr_elim [OF assms] obtain mdl c1 w1 t0 w2 result w3 ms cf where
    g: "getModel config (model params) c w = (Inr mdl, c1, w1)"
      "date_now env w1 = (t0, w2)"
      "generateText env (sdkArgs mdl params) w2 = (Inr result, w3)"
    and resp: "resp = response params result ms cf"
    by blast
  show ?thesis
  proof (intro exI conjI)
    show "getModel config (model params) c w = (Inr mdl, c1, w1)" by (rule g)
    show "date_now env w1 = (t0, w2)" by (rule g)
    show "generateText env (sdkArgs mdl params) w2 = (Inr result, w3)" by (rule g)
    show "arg_experimental_output (sdkArgs mdl params) = params_output params"
      by (simp add: sdkArgs_def)
    show "params_output params = None \<longrightarrow> data resp = TextData (result_text result)"
      by (simp add: resp response_def)
    show "params_output params \<noteq> None \<longrightarrow>
        data resp = OutputData (experimental_output result)"
      by (auto simp: resp response_def)
  qed
qed

theorem generate_data_witness:
  "fst (generate example_config example_env
         ((example_params ''fast'')\<lparr>params_output := Some ()\<rparr>) new_client 0) =
     Inr (fast_response\<lparr>data := OutputData ''{}''\<rparr>) \<and>
   experimental_output example_result = ''{}'' \<and>
   fst (generate example_config example_env (example_params ''fast'') new_client 0) =
     Inr fast_response \<and>
   (\<exists>mdl c1 w1 t0 w2 result w3.
     getModel example_config (model (example_params ''fast'')) new_client 0 =
       (Inr mdl, c1, w1) \<and>
     date_now example_env w1 = (t0, w2) \<and>
     generateText example_env (sdkArgs mdl (example_params ''fast'')) w2 = (Inr result, w3) \<and>
     arg_experimental_output (sdkArgs mdl (example_params ''fast'')) =
       params_output (example_params ''fast'') \<and>
     (params_output (example_params ''fast'') = None \<longrightarrow>
       data fast_response = TextData (result_text result)) \<and>
     (params_output (example_params ''fast'') \<noteq> None \<longrightarrow>
       data fast_response = OutputData (experimental_output result)))"
proof -
  have t: "fst (generate example_config example_env (example_params ''fast'') new_client 0) =
     Inr fast_response"
    by (simp add: example_defs client_defs)
  have s: "fst (generate example_config example_env
         ((example_params ''fast'')\<lparr>params_output := Some ()\<rparr>) new_client 0) =
     Inr (fast_response\<lparr>data := OutputData ''{}''\<rparr>)"
    by (simp add: example_defs client_defs)
  have e: "experimental_output example_result = ''{}''"
    by (simp add: example_result_def)
  from s e t generate_data [OF t] show ?thesis
    by (intro conjI) assumption+
qed

text \<open>
  C9, as amended. The \<open>responseTimeMs\<close> of every \<open>generate\<close> call that returns is the
  reading of the clock taken right after the SDK call returned minus the reading taken
  right before it, which is after the model and its provider were resolved; it is
  non-negative exactly when the second reading is not below the first.
\<close>

theorem responseTimeMs_end_minus_start:
  assumes "fst (generate config env params c w) = Inr resp"
  shows "\<exists>mdl c1 w1 startTime w2 result w3 endTime w4.
    getModel config (model params) c w = (Inr mdl, c1, w1) \<and>
    date_now env w1 = (startTime, w2) \<and>
    generateText env (sdkArgs mdl params) w2 = (Inr result, w3) \<and>
    date_now env w3 = (endTime, w4) \<and>
    responseTimeMs (metadata resp) = endTime - startTime \<and>
    (0 \<le> responseTimeMs (metadata resp)) = (startTime \<le> endTime)"
proof -
  from generate_fst_Inr_elim [OF assms] obtain mdl c1 w1 t0 w2 result w3 t1 w4 cf where
    g: "getModel config (model params) c w = (Inr mdl, c1, w1)"
      "date_now env w1 = (t0, w2)"
      "generateText env (sdkArgs mdl params) w2 = (Inr result, w3)"
      "date_now env w3 = (t1, w4)"
    and resp: "resp = response params result (t1 - t0) cf"
    by blast
  have r: "responseTimeMs (metadata resp) = t1 - t0"
    by (simp add: resp response_def)
  show ?thesis
  proof (intro exI conjI)
    show "getModel config (model params) c w = (Inr mdl, c1, w1)" by (rule g)
    show "date_now env w1 = (t0, w2)" by (rule g)
    show "generateText env (sdkArgs mdl params) w2 = (Inr result, w3)" by (rule g)
    show "date_now env w3 = (t1, w4)" by (rule g)
    show "responseTimeMs (metadata resp) = t1 - t0" by (rule r)
    show "(0 \<le> responseTimeMs (metadata resp)) = (t0 \<le> t1)" by (simp add: r)
  qed
qed

theorem responseTimeMs_end_minus_start_witness:
  "fst (generate example_config example_env (example_params ''fast'') new_client 0) =
     Inr fast_response \<and>
   snd (snd (getModel example_config ''fast'' new_client 0)) = 40 \<and>
   date_now example_env 40 = (40, 40) \<and>
   date_now example_env 290 = (290, 290) \<and>
   responseTimeMs (metadata fast_response) = 250 \<and>
   (\<exists>mdl c1 w1 startTime w2 result w3 endTime w4.
     getModel example_config (model (example_params ''fast'')) new_client 0 =
       (Inr mdl, c1, w1) \<and>
     date_now example_env w1 = (startTime, w2) \<and>
     generateText example_env (sdkArgs mdl (example_params ''fast'')) w2 = (Inr result, w3) \<and>
     date_now example_env w3 = (endTime, w4) \<and>
     responseTimeMs (metadata fast_response) = endTime - startTime \<and>
     (0 \<le> responseTimeMs (metadata fast_response)) = (startTime \<le> endTime))"
proof -
  have t: "fst (generate example_config example_env (example_params ''fast'') new_client 0) =
     Inr fast_response"
    by (simp add: example_defs client_defs)
  have m: "snd (snd (getModel example_config ''fast'' new_client 0)) = 40"
    by (simp add: example_defs client_defs)
  have d: "date_now example_env 40 = (40, 40)" "date_now example_env 290 = (290, 290)"
    by (simp_all add: example_env_def)
  have r: "responseTimeMs (metadata fast_response) = 250"
    by (simp add: fast_response_def)
  from t m d r responseTimeMs_end_minus_start [OF t] show ?thesis
    by (intro conjI) assumption+
qed

text \<open>
  C9 as stated fails: when the wall clock is set back by a second while the SDK call is
  pending, the call returns a negative response time.
\<close>

theorem responseTimeMs_negative_counterexample:
  "fst (generate example_config clock_set_back_env (example_params ''fast'') new_client 0) =
     Inr (fast_response\<lparr>metadata := (metadata fast_response)\<lparr>responseTimeMs := - 750\<rparr>\<rparr>) \<and>
   responseTimeMs
     (metadata (fast_response\<lparr>metadata := (metadata fast_response)\<lparr>responseTimeMs := - 750\<rparr>\<rparr>))
     < 0"
  by (simp add: example_defs client_defs)

section \<open>The log line\<close>

lemma log_lines_append: "log_lines (xs @ ys) = log_lines xs @ log_lines ys"
  by (induction xs rule: log_lines.induct) simp_all

lemma getProvider_log_lines:
  "getProvider config k c w = (r, c', w') \<Longrightarrow> log_lines (events c') = log_lines (events c)"
  by (auto simp: getProvider_def getProvider_call_def getProvider_resume_def log_lines_append
      split: option.splits prod.splits sum.splits inherited_call.splits resolution.splits)

lemma getModel_log_lines:
  "getModel config k c w = (r, c', w') \<Longrightarrow> log_lines (events c') = log_lines (events c)"
  by (auto simp: getModel_def split: option.splits prod.splits sum.splits
      dest: getProvider_log_lines)

lemma emitLog_falsy:
  "logKey params = None \<or> logKey params = Some [] \<Longrightarrow>
    emitLog env params ms cf c w = (None, c, w)"
  by (auto simp: emitLog_def)

lemma emitLog_truthy:
  assumes "logKey params = Some k" and "k \<noteq> []"
  shows "emitLog env params ms cf c w =
    (fst (console_log env (logLine env k (model params) ms cf) w),
     c\<lparr>events := events c @ [LogLine (logLine env k (model params) ms cf)]\<rparr>,
     snd (console_log env (logLine env k (model params) ms cf) w))"
  using assms by (simp add: emitLog_def Let_def split: prod.splits)

lemma emitLog_log_lines:
  assumes "emitLog env params ms cf c w = (r, c', w')"
  shows "(case logKey params of
           None \<Rightarrow> log_lines (events c') = log_lines (events c)
         | Some k \<Rightarrow>
             if k = [] then log_lines (events c') = log_lines (events c)
             else log_lines (events c') =
               log_lines (events c) @ [logLine env k (model params) ms cf])"
proof (cases "logKey params")
  case None
  with assms emitLog_falsy [of params env ms cf c w] show ?thesis by simp
next
  case (Some k)
  show ?thesis
  proof (cases "k = []")
    case True
    with Some assms emitLog_falsy [of params env ms cf c w] show ?thesis by simp
  next
    case False
    from emitLog_truthy [OF Some False, of env ms cf c w] assms
    have "events c' = events c @ [LogLine (logLine env k (model params) ms cf)]"
      by auto
    with Some False show ?thesis by (simp add: log_lines_append)
  qed
qed

lemma generate_log_lines:
  assumes "generate config env params c w = (r, c', w')"
  shows "log_lines (events c') = log_lines (events c) \<or>
    (\<exists>k ms cf. logKey params = Some k \<and> k \<noteq> [] \<and>
      log_lines (events c') = log_lines (events c) @ [logLine env k (model params) ms cf])"
proof -
  obtain rm c1 w1 where gm: "getModel config (model params) c w = (rm, c1, w1)"
    by (cases "getModel config (model params) c w") auto
  note l1 = getModel_log_lines [OF gm]
  have "c' = c1 \<or> (\<exists>ms cf w4 rl. emitLog env params ms cf c1 w4 = (rl, c', w'))"
    using assms gm unfolding generate_def finish_def
    by (auto split: prod.splits sum.splits option.splits)
  then show ?thesis
  proof
    assume "c' = c1"
    with l1 show ?thesis by simp
  next
    assume "\<exists>ms cf w4 rl. emitLog env params ms cf c1 w4 = (rl, c', w')"
    then obtain ms cf w4 rl where "emitLog env params ms cf c1 w4 = (rl, c', w')"
      by blast
    from emitLog_log_lines [OF this] l1 show ?thesis
      by (auto split: option.splits if_splits)
  qed
qed

text \<open>
  C10. A \<open>generate\<close> call whose \<open>logKey\<close> is the empty string passes no line to the
  console: the log is guarded by the truthiness of \<open>logKey\<close>. A call that passes a line
  has a non-empty \<open>logKey\<close>, and a call with a non-empty \<open>logKey\<close> that returns has
  passed exactly one line, the one built from its key, alias, response time and costs.
\<close>

theorem empty_logKey_emits_nothing:
  assumes "generate config env params c w = (r, c', w')"
  shows "(logKey params = Some [] \<longrightarrow> log_lines (events c') = log_lines (events c)) \<and>
    (log_lines (events c') \<noteq> log_lines (events c) \<longrightarrow>
      (\<exists>k. logKey params = Some k \<and> k \<noteq> [])) \<and>
    (\<forall>k resp. logKey params = Some k \<and> k \<noteq> [] \<and> r = Inr resp \<longrightarrow>
      log_lines (events c') =
        log_lines (events c) @
          [logLine env k (model params) (responseTimeMs (metadata resp))
            \<lparr>inputCostUsd = inputCostUsd (metadata resp),
             outputCostUsd = outputCostUsd (metadata resp),
             totalCostUsd = totalCostUsd (metadata resp)\<rparr>])"
proof (intro conjI allI impI)
  assume "logKey params = Some []"
  with generate_log_lines [OF assms]
  show "log_lines (events c') = log_lines (events c)" by auto
next
  assume "log_lines (events c') \<noteq> log_lines (events c)"
  with generate_log_lines [OF assms]
  show "\<exists>k. logKey params = Some k \<and> k \<noteq> []" by auto
next
  fix k resp
  assume a: "logKey params = Some k \<and> k \<noteq> [] \<and> r = Inr resp"
  with assms have "generate config env params c w = (Inr resp, c', w')" by simp
  from generate_Inr_elim [OF this] obtain mdl c1 w1 t0 result t1 w4 cf where
    gm: "getModel config (model params) c w = (Inr mdl, c1, w1)"
    and el: "emitLog env params (t1 - t0) cf c1 w4 = (None, c', w')"
    and resp: "resp = response params result (t1 - t0) cf"
    by blast
  from emitLog_log_lines [OF el] a getModel_log_lines [OF gm]
  have "log_lines (events c') =
      log_lines (events c) @ [logLine env k (model params) (t1 - t0) cf]"
    by simp
  moreover have "responseTimeMs (metadata resp) = t1 - t0"
    by (simp add: resp response_def)
  moreover have "\<lparr>inputCostUsd = inputCostUsd (metadata resp),
             outputCostUsd = outputCostUsd (metadata resp),
             totalCostUsd = totalCostUsd (metadata resp)\<rparr> = cf"
    by (simp add: resp response_def)
  ultimately show "log_lines (events c') =
        log_lines (events c) @
          [logLine env k (model params) (responseTimeMs (metadata resp))
            \<lparr>inputCostUsd = inputCostUsd (metadata resp),
             outputCostUsd = outputCostUsd (metadata resp),
             totalCostUsd = totalCostUsd (metadata resp)\<rparr>]"
    by simp
qed

theorem empty_logKey_emits_nothing_witness:
  "logKey ((example_params ''smart'')\<lparr>logKey := Some ''''\<rparr>) = Some [] \<and>
   log_lines (events (fst (snd (generate example_config example_env
       ((example_params ''smart'')\<lparr>logKey := Some ''''\<rparr>) new_client 0)))) =
     log_lines (events new_client) \<and>
   log_lines (events (fst (snd (generate example_config example_env
       ((example_params ''smart'')\<lparr>logKey := Some ''req''\<rparr>) new_client 0)))) =
     log_lines (events new_client) @
       [''[LLM][req] 0.25s using smart cost: $ (in: $, out: $)'']"
proof -
  let ?g = "\<lambda>k. generate example_config example_env
       ((example_params ''smart'')\<lparr>logKey := Some k\<rparr>) new_client 0"
  have c: "?g k = (fst (?g k), fst (snd (?g k)), snd (snd (?g k)))" for k
    by simp
  have r: "fst (?g ''req'') =
      Inr (fast_response\<lparr>metadata := (metadata fast_response)
        \<lparr>inputCostUsd := Some 2.5, outputCostUsd := Some 5, totalCostUsd := Some 7.5\<rparr>\<rparr>)"
    by (simp add: example_defs client_defs)
  from empty_logKey_emits_nothing [OF c [of "''''"]]
    empty_logKey_emits_nothing [OF c [of "''req''"]] r
  show ?thesis
    by (simp add: example_defs logLine_def)
qed

lemma getModel_calculateCosts:
  assumes "getModel config k c w = (Inr mdl, c1, w1)"
  shows "\<exists>cf. calculateCosts config k i j = Inr cf"
proof -
  from getModel_Inr_lookup [OF assms] obtain mc where "lookupModel config k = Some mc"
    by blast
  then show ?thesis
    by (cases "read_costs mc") (simp_all add: calculateCosts_def Let_def)
qed

text \<open>
  C7, as amended. The log emission of a \<open>generate\<close> call with a non-empty \<open>logKey\<close> is
  not guarded. Once the model is resolved and the SDK call has returned, the call returns
  the full response when \<^verbatim>\<open>console.log\<close> returns, and fails with the thrown value when
  \<^verbatim>\<open>console.log\<close> throws.
\<close>

theorem console_log_failure_propagates:
  assumes "getModel config (model params) c w = (Inr mdl, c1, w1)"
    and "date_now env w1 = (startTime, w2)"
    and "generateText env (sdkArgs mdl params) w2 = (Inr result, w3)"
    and "date_now env w3 = (endTime, w4)"
    and "logKey params = Some k" and "k \<noteq> []"
  shows "\<exists>cf.
    calculateCosts config (model params) (usedInputTokens result) (usedOutputTokens result) =
      Inr cf \<and>
    (case fst (console_log env (logLine env k (model params) (endTime - startTime) cf) w4) of
      None \<Rightarrow>
        fst (generate config env params c w) =
          Inr (response params result (endTime - startTime) cf)
    | Some x \<Rightarrow> fst (generate config env params c w) = Inl (Thrown x))"
proof -
  from getModel_calculateCosts [OF assms(1)] obtain cf where
    cc: "calculateCosts config (model params) (usedInputTokens result)
          (usedOutputTokens result) = Inr cf"
    by blast
  note el = emitLog_truthy [OF assms(5,6), of env "endTime - startTime" cf c1 w4]
  have "case fst (console_log env (logLine env k (model params) (endTime - startTime) cf) w4) of
      None \<Rightarrow>
        fst (generate config env params c w) =
          Inr (response params result (endTime - startTime) cf)
    | Some x \<Rightarrow> fst (generate config env params c w) = Inl (Thrown x)"
    using assms(1-4) cc el
    by (simp add: generate_def finish_def split: option.splits)
  with cc show ?thesis by blast
qed

theorem console_log_failure_propagates_witness:
  "fst (getModel example_config ''fast'' new_client 0) = Inr ''openai:gpt-4o-mini'' \<and>
   snd (snd (getModel example_config ''fast'' new_client 0)) = 40 \<and>
   fst (generate example_config example_env
     ((example_params ''fast'')\<lparr>logKey := Some ''req''\<rparr>) new_client 0) = Inr fast_response \<and>
   fst (generate example_config broken_console_env
     ((example_params ''fast'')\<lparr>logKey := Some ''req''\<rparr>) new_client 0) =
     Inl (Thrown ''EPIPE'')"
proof -
  let ?p = "(example_params ''fast'')\<lparr>logKey := Some ''req''\<rparr>"
  let ?gm = "getModel example_config ''fast'' new_client 0"
  have m: "model ?p = ''fast''" and k: "logKey ?p = Some ''req''" and ne: "''req'' \<noteq> []"
    by (simp_all add: example_params_def)
  have gm: "getModel example_config (model ?p) new_client 0 =
      (Inr ''openai:gpt-4o-mini'', fst (snd ?gm), 40)"
    by (simp add: example_defs client_defs)
  have d1: "date_now example_env 40 = (40, 40)"
    and d1': "date_now broken_console_env 40 = (40, 40)"
    and d2: "date_now example_env 290 = (290, 290)"
    and d2': "date_now broken_console_env 290 = (290, 290)"
    and g: "generateText example_env (sdkArgs ''openai:gpt-4o-mini'' ?p) 40 =
      (Inr example_result, 290)"
    and g': "generateText broken_console_env (sdkArgs ''openai:gpt-4o-mini'' ?p) 40 =
      (Inr example_result, 290)"
    by (simp_all add: example_defs)
  from console_log_failure_propagates [OF gm d1 g d2 k ne]
    console_log_failure_propagates [OF gm d1' g' d2' k ne]
  show ?thesis
    by (auto simp: example_defs client_defs)
qed

text \<open>
  C7 as stated fails: with a console whose \<^verbatim>\<open>log\<close> throws, a call with \<open>logKey\<close> set
  fails with the thrown value although the SDK call returned.
\<close>

theorem logging_failure_counterexample:
  "fst (generateText broken_console_env
     (sdkArgs ''openai:gpt-4o-mini'' ((example_params ''fast'')\<lparr>logKey := Some ''req''\<rparr>)) 40) =
     Inr example_result \<and>
   fst (generate example_config broken_console_env
     ((example_params ''fast'')\<lparr>logKey := Some ''req''\<rparr>) new_client 0) =
     Inl (Thrown ''EPIPE'')"
  by (simp add: example_defs client_defs)

section \<open>Provider resolution\<close>

lemma factory_calls_append:
  "factory_calls k (xs @ ys) = factory_calls k xs @ factory_calls k ys"
  by (induction k xs rule: factory_calls.induct) simp_all

lemma invocations_of_append:
  "invocations_of n (xs @ ys) = invocations_of n xs @ invocations_of n ys"
  by (induction n xs rule: invocations_of.induct) simp_all



lemma cacheHit_empty: "providerCache c key = None \<Longrightarrow> cacheHit c key = None"
  by (simp add: cacheHit_def)



lemma getProvider_factory_throws:
  assumes "cacheHit c key = None" and "providers config (propertyKey key) = Some factory"
    and "factory w = (Inl x, w1)"
  shows "getProvider config key c w =
    (Inl (Thrown x), c\<lparr>events := events c @ [FactoryCall key False]\<rparr>, w1)"
  using assms by (simp add: getProvider_def getProvider_call_def getProvider_resume_def)

lemma getProvider_factory_returns:
  assumes "cacheHit c key = None" and "providers config (propertyKey key) = Some factory"
    and "factory w = (Inr p, w1)"
  shows "getProvider config key c w =
    (Inr (Provider p),
     c\<lparr>providerCache := (providerCache c)(key \<mapsto> Provider p),
       events := events c @ [FactoryCall key True]\<rparr>, w1)"
  using assms by (simp add: getProvider_def getProvider_call_def getProvider_resume_def)




lemma getProvider_uncached_calls:
  assumes "cacheHit c key = None" and "providers config (propertyKey key) = Some factory"
    and "getProvider config key c w = (r, c', w')"
  shows "factory_calls key (events c') =
    factory_calls key (events c) @ [\<not> isl (fst (factory w))]"
proof (cases "factory w")
  case (Pair a w1)
  show ?thesis
  proof (cases a)
    case (Inl x)
    with Pair getProvider_factory_throws [OF assms(1,2), of w x w1] assms(3)
    show ?thesis by (auto simp: factory_calls_append)
  next
    case (Inr p)
    with Pair getProvider_factory_returns [OF assms(1,2), of w p w1] assms(3)
    show ?thesis by (auto simp: factory_calls_append)
  qed
qed

section \<open>The client's state along a sequence of calls\<close>

lemma emitLog_client:
  assumes "emitLog env params ms cf c w = (r, c', w')"
  shows "providerCache c' = providerCache c \<and>
    factory_calls k (events c') = factory_calls k (events c)"
  using assms
  by (auto simp: emitLog_def Let_def factory_calls_append
      split: option.splits if_splits prod.splits)

lemma getModel_cases:
  assumes "getModel config a c w = (r, c', w')"
  shows "(lookupModel config a = None \<and> r = Inl TypeError \<and> c' = c \<and> w' = w) \<or>
    (\<exists>mc rp. lookupModel config a = Some mc \<and>
      getProvider config (read_provider mc) c w = (rp, c', w') \<and>
      (case rp of Inl e \<Rightarrow> r = Inl e | Inr v \<Rightarrow> r = callProvider v (read_id mc)))"
  using assms
  by (auto simp: getModel_def split: option.splits prod.splits sum.splits)

lemma generate_client:
  assumes "generate config env params c w = (r, c', w')"
  shows "\<exists>rm c1 w1. getModel config (model params) c w = (rm, c1, w1) \<and>
    (case rm of Inl e \<Rightarrow> r = Inl e \<and> c' = c1 \<and> w' = w1 | Inr m \<Rightarrow> True) \<and>
    providerCache c' = providerCache c1 \<and>
    (\<forall>k. factory_calls k (events c') = factory_calls k (events c1))"
proof -
  obtain rm c1 w1 where gm: "getModel config (model params) c w = (rm, c1, w1)"
    by (cases "getModel config (model params) c w") auto
  have "(c' = c1 \<and> (case rm of Inl e \<Rightarrow> r = Inl e \<and> w' = w1 | Inr m \<Rightarrow> True)) \<or>
    (\<exists>m. rm = Inr m) \<and> (\<exists>ms cf w4 rl. emitLog env params ms cf c1 w4 = (rl, c', w'))"
    using assms gm unfolding generate_def finish_def
    by (auto split: prod.splits sum.splits option.splits)
  then show ?thesis
  proof
    assume "c' = c1 \<and> (case rm of Inl e \<Rightarrow> r = Inl e \<and> w' = w1 | Inr m \<Rightarrow> True)"
    with gm show ?thesis by (auto split: sum.splits)
  next
    assume a: "(\<exists>m. rm = Inr m) \<and>
      (\<exists>ms cf w4 rl. emitLog env params ms cf c1 w4 = (rl, c', w'))"
    then obtain ms cf w4 rl where "emitLog env params ms cf c1 w4 = (rl, c', w')"
      by blast
    from emitLog_client [OF this] a gm show ?thesis by auto
  qed
qed









lemma cacheHit_events [simp]: "cacheHit (c\<lparr>events := es\<rparr>) key = cacheHit c key"
  by (simp add: cacheHit_def)







section \<open>A call alone and calls that overlap\<close>

text \<open>
  A call that runs to its end (it has at most five parts) with no other call in between
  is the \<open>generate\<close> defined above.
\<close>

lemma overlapped_alone:
  "overlapped config env [0, 0, 0, 0, 0] [Start params] c w =
    (case generate config env params c w of (r, c', w') \<Rightarrow> ([Done r], c', w'))"
proof (cases "lookupModel config (model params)")
  case None
  then show ?thesis by (simp add: generate_def getModel_def)
next
  case (Some mc)
  obtain res c1 w1 where gc:
    "getProvider_call config (read_provider mc) c w = (res, c1, w1)"
    by (cases "getProvider_call config (read_provider mc) c w") auto
  show ?thesis
  proof (cases res)
    case (Settled r)
    show ?thesis
    proof (cases r)
      case (Inl e)
      with Some gc Settled show ?thesis
        by (simp add: generate_def getModel_def getProvider_def)
    next
      case (Inr v)
      with Some gc Settled show ?thesis
        by (cases "callProvider v (read_id mc)")
          (simp_all add: generate_def getModel_def getProvider_def split: prod.splits)
    qed
  next
    case (Pending outcome)
    obtain r c2 where gr: "getProvider_resume (read_provider mc) outcome c1 = (r, c2)"
      by (cases "getProvider_resume (read_provider mc) outcome c1") auto
    show ?thesis
    proof (cases r)
      case (Inl e)
      with Some gc Pending gr show ?thesis
        by (simp add: generate_def getModel_def getProvider_def)
    next
      case (Inr v)
      with Some gc Pending gr show ?thesis
        by (cases "callProvider v (read_id mc)")
          (simp_all add: generate_def getModel_def getProvider_def split: prod.splits)
    qed
  qed
qed

section \<open>The provider cache\<close>

lemma generate_uncached_calls:
  assumes "cacheHit c (Some k) = None" and "providers config k = Some factory"
    and "models config (model params) = Some entry" and "provider entry = k"
  shows "factory_calls (Some k) (events (fst (snd (generate config env params c w)))) =
    factory_calls (Some k) (events c) @ [\<not> isl (fst (factory w))]"
proof -
  obtain r c' w' where gen: "generate config env params c w = (r, c', w')"
    by (cases "generate config env params c w") auto
  from generate_client [OF gen] obtain rm c1 w1 where
    gm: "getModel config (model params) c w = (rm, c1, w1)"
    and same: "\<forall>k. factory_calls k (events c') = factory_calls k (events c1)"
    by blast
  from getModel_cases [OF gm] lookupModel_own [OF assms(3)] assms(4) obtain rp where
    gp: "getProvider config (Some k) c w = (rp, c1, w1)"
    by auto
  have "providers config (propertyKey (Some k)) = Some factory"
    using assms(2) by simp
  from getProvider_uncached_calls [OF assms(1) this gp] same gen show ?thesis
    by simp
qed

text \<open>
  C5, as amended. When the factory of an uncached provider key throws, resolving the
  provider fails with the thrown value itself (the client wraps nothing: it has no
  \<open>ProviderInitError\<close>), and so does the \<open>generate\<close> call for a model of that provider;
  the provider cache is unchanged, and the next \<open>generate\<close> call for such a model invokes
  the factory again.
\<close>

theorem failing_factory_not_cached:
  assumes "providerCache c (Some k) = None" and "providers config k = Some factory"
    and "factory w = (Inl x, w1)"
    and "models config (model params) = Some entry" and "provider entry = k"
  shows "\<exists>c1.
    getProvider config (Some k) c w = (Inl (Thrown x), c1, w1) \<and>
    generate config env params c w = (Inl (Thrown x), c1, w1) \<and>
    providerCache c1 = providerCache c \<and>
    factory_calls (Some k) (events c1) = factory_calls (Some k) (events c) @ [False] \<and>
    (\<forall>w2. factory_calls (Some k) (events (fst (snd (generate config env params c1 w2)))) =
      factory_calls (Some k) (events c1) @ [\<not> isl (fst (factory w2))])"
proof -
  let ?c1 = "c\<lparr>events := events c @ [FactoryCall (Some k) False]\<rparr>"
  have miss: "cacheHit c (Some k) = None"
    using assms(1) by (rule cacheHit_empty)
  have f: "providers config (propertyKey (Some k)) = Some factory"
    using assms(2) by simp
  note gp = getProvider_factory_throws [OF miss f assms(3)]
  have gen: "generate config env params c w = (Inl (Thrown x), ?c1, w1)"
    using gp lookupModel_own [OF assms(4)] assms(5) by (simp add: generate_def getModel_def)
  have cache: "providerCache ?c1 = providerCache c"
    and calls: "factory_calls (Some k) (events ?c1) =
      factory_calls (Some k) (events c) @ [False]"
    by (simp_all add: factory_calls_append)
  have "cacheHit ?c1 (Some k) = None" using miss by simp
  from generate_uncached_calls [OF this assms(2,4,5)]
  have "\<forall>w2. factory_calls (Some k) (events (fst (snd (generate config env params ?c1 w2)))) =
      factory_calls (Some k) (events ?c1) @ [\<not> isl (fst (factory w2))]"
    by blast
  with gp gen cache calls show ?thesis by blast
qed

theorem failing_factory_not_cached_witness:
  "providerCache new_client (Some ''openai'') = None \<and>
   fst (the (providers flaky_config ''openai'') 0) = Inl ''boom'' \<and>
   fst (generate flaky_config example_env (example_params ''fast'') new_client 0) =
     Inl (Thrown ''boom'') \<and>
   providerCache
     (fst (snd (generate flaky_config example_env (example_params ''fast'') new_client 0))) =
     Map.empty \<and>
   factory_calls (Some ''openai'') (events (fst (snd
     (generate flaky_config example_env (example_params ''fast'')
       (fst (snd (generate flaky_config example_env (example_params ''fast'') new_client 0)))
       40)))) = [False, True]"
proof -
  let ?f = "the (providers flaky_config ''openai'')"
  let ?entry = "\<lparr>provider = ''openai'', modelId = ''gpt-4o-mini'', costs = None\<rparr>"
  have c: "providerCache new_client (Some ''openai'') = None"
    by (simp add: new_client_def)
  have p: "providers flaky_config ''openai'' = Some ?f"
    by (simp add: example_defs)
  have f: "?f 0 = (Inl ''boom'', 40)" and f2: "fst (?f 40) = Inr openai_provider"
    by (simp_all add: example_defs)
  have m: "models flaky_config (model (example_params ''fast'')) = Some ?entry"
    by (simp add: example_defs)
  have e: "provider ?entry = ''openai''" by simp
  from failing_factory_not_cached [OF c p f m e, of example_env] obtain c1 where
    g: "generate flaky_config example_env (example_params ''fast'') new_client 0 =
      (Inl (Thrown ''boom''), c1, 40)"
    and c1: "providerCache c1 = providerCache new_client"
      "factory_calls (Some ''openai'') (events c1) =
        factory_calls (Some ''openai'') (events new_client) @ [False]"
      "factory_calls (Some ''openai'') (events (fst (snd
        (generate flaky_config example_env (example_params ''fast'') c1 40)))) =
        factory_calls (Some ''openai'') (events c1) @ [\<not> isl (fst (?f 40))]"
    by blast
  from g c1 c f f2 show ?thesis
    by (simp add: new_client_def)
qed

text \<open>C5 as stated fails: the error of the resolution is not \<open>ProviderInitError\<close>.\<close>

theorem failing_factory_counterexample:
  "fst (getProvider flaky_config (Some ''openai'') new_client 0) = Inl (Thrown ''boom'') \<and>
   fst (getProvider flaky_config (Some ''openai'') new_client 0) \<noteq> Inl ProviderInitError"
  by (simp add: example_defs client_defs)




section \<open>Errors of model and provider resolution\<close>










end
